theory Spec2Isabelle
  imports Main
begin

section \<open>Python values used by \<open>hncli/hacker_news.py\<close>\<close>

subsection \<open>\<open>str\<close> of an integer\<close>

text \<open>
  Python's \<open>str(n)\<close> for an integer: the decimal digits, most significant first, with a
  leading minus sign for a negative number.
\<close>

definition digit_char :: "nat \<Rightarrow> char" where
  "digit_char d = ''0123456789'' ! (d mod 10)"

fun str_nat :: "nat \<Rightarrow> string" where
  "str_nat n = (if n < 10 then [digit_char n] else str_nat (n div 10) @ [digit_char (n mod 10)])"

declare str_nat.simps [simp del]

definition str_int :: "int \<Rightarrow> string" where
  "str_int i = (if i < 0 then CHR ''-'' # str_nat (nat (- i)) else str_nat (nat i))"

section \<open>\<open>pretty_date_time\<close>\<close>

text \<open>
  An instant of the naive local clock is the number of microseconds on that clock
  (the resolution of \<open>datetime\<close>); a \<open>timedelta\<close> is a number of microseconds, and its
  normalised fields are \<open>days = d div 86400000000\<close> (floor, negative for a negative
  difference) and \<open>seconds = (d mod 86400000000) div 1000000\<close>, between 0 and 86399.

  The argument of \<open>pretty_date_time\<close> is an \<open>int\<close> epoch timestamp (first branch), a
  \<open>datetime\<close> (second branch) or a false value such as \<open>None\<close> (third branch).
\<close>

datatype date_time = Timestamp int | Datetime int | Absent

definition us_per_second :: int where
  "us_per_second = 1000000"

definition us_per_day :: int where
  "us_per_day = 86400 * us_per_second"

text \<open>
  \<open>datetime.fromtimestamp(s)\<close> for an \<open>int\<close>, on a local clock that keeps one offset from
  UTC (the offset is in the origin of the clock). The library's conversion follows
  the changes of the offset (daylight saving time) and raises outside the years 1 to
  9999; neither is modelled, and both reach \<open>pretty_date_time\<close> on its \<open>int\<close> branch only.
\<close>

definition fromtimestamp :: "int \<Rightarrow> int" where
  "fromtimestamp s = s * us_per_second"

definition td_days :: "int \<Rightarrow> int" where
  "td_days d = d div us_per_day"

definition td_seconds :: "int \<Rightarrow> int" where
  "td_seconds d = (d mod us_per_day) div us_per_second"

text \<open>
  The block under \<open>if day_diff == 0:\<close>: the label it returns, or \<open>None\<close> when none of
  its tests holds and control falls through to the tests on \<open>day_diff\<close>.
\<close>

definition same_day_label :: "int \<Rightarrow> string option" where
  "same_day_label second_diff =
     (if second_diff < 10 then Some ''just now''
      else if second_diff < 60 then Some (str_int second_diff @ '' seconds ago'')
      else if second_diff < 120 then Some ''1 minute ago''
      else if second_diff < 3600 then Some (str_int (second_diff div 60) @ '' minutes ago'')
      else if second_diff < 7200 then Some ''1 hour ago''
      else if second_diff < 86400 then Some (str_int (second_diff div 3600) @ '' hours ago'')
      else None)"

definition days_label :: "int \<Rightarrow> string" where
  "days_label day_diff =
     (if day_diff = 1 then ''Yesterday''
      else if day_diff < 7 then str_int day_diff @ '' days ago''
      else if day_diff < 31 then str_int (day_diff div 7) @ '' weeks ago''
      else if day_diff < 365 then str_int (day_diff div 30) @ '' months ago''
      else str_int (day_diff div 365) @ '' years ago'')"

definition pretty_date_time :: "int \<Rightarrow> date_time \<Rightarrow> string" where
  "pretty_date_time now date_time =
     (let diff = (case date_time of
                    Timestamp s \<Rightarrow> now - fromtimestamp s
                  | Datetime t \<Rightarrow> now - t
                  | Absent \<Rightarrow> now - now);
          second_diff = td_seconds diff;
          day_diff = td_days diff
      in if day_diff < 0 then []
         else (case (if day_diff = 0 then same_day_label second_diff else None) of
                 Some label \<Rightarrow> label
               | None \<Rightarrow> days_label day_diff))"


section \<open>Strings, lists and errors of Python\<close>

subsection \<open>String methods\<close>

text \<open>\<open>s.strip()\<close>: the white space of a byte string is removed at both ends.\<close>

definition py_isspace :: "char \<Rightarrow> bool" where
  "py_isspace c = (c \<in> set [CHR '' '', CHR 0x09, CHR 0x0A, CHR 0x0B, CHR 0x0C, CHR 0x0D])"

definition py_strip :: "string \<Rightarrow> string" where
  "py_strip s = rev (dropWhile py_isspace (rev (dropWhile py_isspace s)))"

text \<open>\<open>s.replace(c, '')\<close> for a single character \<open>c\<close>: every occurrence is dropped.\<close>

definition py_remove :: "char \<Rightarrow> string \<Rightarrow> string" where
  "py_remove c s = filter (\<lambda>x. x \<noteq> c) s"

text \<open>
  \<open>s.split(sep)\<close> for a separator that is not empty (the source's is \<open>', '\<close>): the
  pieces between the occurrences of \<open>sep\<close>, found from the left without overlap. The
  empty string gives one empty piece.
\<close>

definition starts_with :: "string \<Rightarrow> string \<Rightarrow> bool" where
  "starts_with sep s = (sep \<noteq> [] \<and> take (length sep) s = sep)"

function py_split :: "string \<Rightarrow> string \<Rightarrow> string list" where
  "py_split sep [] = [[]]"
| "py_split sep (c # cs) =
     (if starts_with sep (c # cs) then [] # py_split sep (drop (length sep) (c # cs))
      else (case py_split sep cs of
              [] \<Rightarrow> [[c]]
            | p # ps \<Rightarrow> (c # p) # ps))"
  by pat_completeness auto
termination
  by (relation "measure (\<lambda>(sep, s). length s)") (auto simp: starts_with_def)

text \<open>\<open>sep.join(xs)\<close>.\<close>

fun join :: "string \<Rightarrow> string list \<Rightarrow> string" where
  "join sep [] = []"
| "join sep [x] = x"
| "join sep (x # y # ys) = x @ sep @ join sep (y # ys)"

text \<open>
  \<open>re.sub(old, new, s)\<close> for a pattern \<open>old\<close> without metacharacters that is not empty
  (the source's is two line feeds): every occurrence, from the left without overlap,
  is replaced.
\<close>

function sub_literal :: "string \<Rightarrow> string \<Rightarrow> string \<Rightarrow> string" where
  "sub_literal old new [] = []"
| "sub_literal old new (c # cs) =
     (if starts_with old (c # cs) then new @ sub_literal old new (drop (length old) (c # cs))
      else c # sub_literal old new cs)"
  by pat_completeness auto
termination
  by (relation "measure (\<lambda>(old, new, s). length s)") (auto simp: starts_with_def)

text \<open>
  \<open>re.sub('www.', '', netloc)\<close>. The pattern is the three letters \<open>www\<close> followed by
  any one character but a line feed (the dot is a metacharacter), and it is searched
  along the whole string: every match, from the left without overlap, is removed.
\<close>

fun sub_www :: "string \<Rightarrow> string" where
  "sub_www (a # b # c # d # s) =
     (if a = CHR ''w'' \<and> b = CHR ''w'' \<and> c = CHR ''w'' \<and> d \<noteq> CHR 0x0A then sub_www s
      else a # sub_www (b # c # d # s))"
| "sub_www s = s"

subsection \<open>Identifiers and their renderings\<close>

text \<open>
  An item identifier is an integer when it comes from the remote source
  (\<open>item.item_id\<close>) and a string when it was read back from the configuration file.
  \<open>str\<close> of a list renders each element with \<open>repr\<close>: an integer as its digits, a byte
  string between quotes with its escapes.
\<close>

datatype ident = IntId int | StrId string

definition hex_digit :: "nat \<Rightarrow> char" where
  "hex_digit d = ''0123456789abcdef'' ! (d mod 16)"

definition repr_char :: "char \<Rightarrow> char \<Rightarrow> string" where
  "repr_char quote c =
     (if c = quote \<or> c = CHR 0x5C then [CHR 0x5C, c]
      else if c = CHR 0x09 then [CHR 0x5C, CHR ''t'']
      else if c = CHR 0x0A then [CHR 0x5C, CHR ''n'']
      else if c = CHR 0x0D then [CHR 0x5C, CHR ''r'']
      else if (of_char c :: nat) < 32 \<or> 127 \<le> (of_char c :: nat)
        then [CHR 0x5C, CHR ''x'', hex_digit (of_char c div 16), hex_digit (of_char c mod 16)]
      else [c])"

definition repr_str :: "string \<Rightarrow> string" where
  "repr_str s =
     (let quote = (if CHR 0x27 \<in> set s \<and> CHR 0x22 \<notin> set s then CHR 0x22 else CHR 0x27)
      in quote # concat (map (repr_char quote) s) @ [quote])"

fun py_str :: "ident \<Rightarrow> string" where
  "py_str (IntId n) = str_int n"
| "py_str (StrId s) = s"

fun py_repr :: "ident \<Rightarrow> string" where
  "py_repr (IntId n) = str_int n"
| "py_repr (StrId s) = repr_str s"

definition str_list :: "ident list \<Rightarrow> string" where
  "str_list xs = ''['' @ join '', '' (map py_repr xs) @ '']''"

subsection \<open>Exceptions\<close>

text \<open>
  The exceptions the code can raise, each with what its message is made of;
  \<open>str_error\<close> is \<open>str(e)\<close>, which \<open>view\<close> prints.
\<close>

datatype error =
    IndexError
  | TypeError string
  | IOError string
  | NoSectionError string
  | NoOptionError string string
  | AttributeError string string

fun str_error :: "error \<Rightarrow> string" where
  "str_error IndexError = ''list index out of range''"
| "str_error (TypeError msg) = msg"
| "str_error (IOError path) = ''[Errno 2] No such file or directory: '' @ repr_str path"
| "str_error (NoSectionError section) = ''No section: '' @ repr_str section"
| "str_error (NoOptionError option section) =
     ''No option '' @ repr_str option @ '' in section: '' @ repr_str section"
| "str_error (AttributeError tname attribute) =
     repr_str tname @ '' object has no attribute '' @ repr_str attribute"

text \<open>
  \<open>xs[i]\<close>: a subscript from \<open>0\<close> to \<open>len(xs) - 1\<close> counts from the front, one from
  \<open>-len(xs)\<close> to \<open>-1\<close> counts from the end, and any other raises \<open>IndexError\<close>.
\<close>

definition py_getitem :: "'a list \<Rightarrow> int \<Rightarrow> error + 'a" where
  "py_getitem xs i =
     (let n = int (length xs)
      in if 0 \<le> i \<and> i < n then Inr (xs ! nat i)
         else if - n \<le> i \<and> i < 0 then Inr (xs ! nat (n + i))
         else Inl IndexError)"

text \<open>The truth value of an optional string: \<open>None\<close> and the empty string are false.\<close>

fun truthy :: "string option \<Rightarrow> bool" where
  "truthy None = False"
| "truthy (Some s) = (s \<noteq> [])"

section \<open>The class \<open>HackerNews\<close>\<close>

subsection \<open>Items, collaborators and state\<close>

text \<open>
  An item of the remote source. The optional fields are the ones the code tests
  before use (\<open>title\<close>, \<open>url\<close>, \<open>text\<close>, \<open>descendants\<close>, \<open>kids\<close>, and \<open>score\<close>, which is
  only passed to \<open>str\<close>); the author handle \<open>by\<close> is used as a string throughout. The
  fields \<open>by\<close> and \<open>text\<close> are named \<open>item_by\<close> and \<open>item_text\<close> here.
\<close>

record item =
  item_id :: ident
  item_by :: string
  title :: "string option"
  url :: "string option"
  item_text :: "string option"
  score :: "int option"
  descendants :: "int option"
  submission_time :: date_time
  kids :: "ident list option"

text \<open>
  What the class calls and does not define: the remote source
  (\<open>hacker_news_api.get_item\<close>), the clock (\<open>datetime.now()\<close>, read once for an
  operation), the regular expression search (\<open>re.search(pattern, string)\<close>, true when
  there is a match), \<open>urlparse(url).netloc\<close>, \<open>HTML2Text().handle\<close> with
  \<open>body_width = 0\<close>, \<open>click.wrap_text(text, initial_indent, subsequent_indent)\<close> with
  both indents equal, \<open>urllib.quote(url, safe='')\<close>, the text of \<open>requests.get(url)\<close>,
  and the absolute path of the home directory.
\<close>

record env =
  get_item :: "ident \<Rightarrow> item"
  now :: int
  re_search :: "string \<Rightarrow> string \<Rightarrow> bool"
  netloc :: "string \<Rightarrow> string"
  html_to_text :: "string \<Rightarrow> string"
  wrap_text :: "string \<Rightarrow> string \<Rightarrow> string"
  url_quote :: "string \<Rightarrow> string"
  http_get :: "string \<Rightarrow> string"
  home :: string

text \<open>
  What is written to the terminal: \<open>click.secho(text, fg=colour, nl=...)\<close>,
  \<open>click.echo(text)\<close> and \<open>click.echo_via_pager(text)\<close>.
\<close>

datatype terminal_line = Secho string string bool | Echo string | Pager string

text \<open>
  A configuration file as \<open>RawConfigParser\<close> reads it: its sections, each with its
  options and their values. The state is the attribute \<open>item_ids\<close> of the object,
  the file \<open>~/.hncliconfig\<close> (\<open>None\<close> when there is none) and the terminal.
\<close>

type_synonym config = "(string \<times> (string \<times> string) list) list"

record hacker_news =
  item_ids :: "ident list"
  config_file :: "config option"
  terminal :: "terminal_line list"

definition COMMENT_INDENT :: string where
  "COMMENT_INDENT = ''    ''"

definition CONFIG :: string where
  "CONFIG = ''.hncliconfig''"

definition CONFIG_SECTION :: string where
  "CONFIG_SECTION = ''hncli''"

definition CONFIG_INDEX :: string where
  "CONFIG_INDEX = ''item_ids''"

definition TIP :: string where
  "TIP = ''Tip: View the page or comments in your terminal with the following command:''
     @ [CHR 0x0A] @ ''    hn view [#] [-c/--comments]''"

definition URL_POST :: string where
  "URL_POST = ''https://news.ycombinator.com/item?id=''"

definition URL_W3_HTML_TEXT :: string where
  "URL_W3_HTML_TEXT = ''https://www.w3.org/services/html2txt?url=''"

text \<open>\<open>__init__\<close>, in a process that finds the file \<open>file\<close> on disk.\<close>

definition init :: "config option \<Rightarrow> hacker_news" where
  "init file = \<lparr>item_ids = [], config_file = file, terminal = []\<rparr>"

definition secho :: "string \<Rightarrow> string \<Rightarrow> bool \<Rightarrow> hacker_news \<Rightarrow> hacker_news" where
  "secho s fg nl w = w\<lparr>terminal := terminal w @ [Secho s fg nl]\<rparr>"

definition echo :: "string \<Rightarrow> hacker_news \<Rightarrow> hacker_news" where
  "echo s w = w\<lparr>terminal := terminal w @ [Echo s]\<rparr>"

definition echo_via_pager :: "string \<Rightarrow> hacker_news \<Rightarrow> hacker_news" where
  "echo_via_pager s w = w\<lparr>terminal := terminal w @ [Pager s]\<rparr>"

text \<open>\<open>_config\<close>: \<open>os.path.join\<close> of the home directory and the file name.\<close>

definition config_path :: "env \<Rightarrow> string \<Rightarrow> string" where
  "config_path e config_file_name =
     (if home e \<noteq> [] \<and> last (home e) = CHR ''/'' then home e @ config_file_name
      else home e @ ''/'' @ config_file_name)"

subsection \<open>\<open>regex_match\<close>\<close>

text \<open>
  The three searches in the source's order; \<open>re.search\<close> raises \<open>TypeError\<close> on a body
  text that is \<open>None\<close>.
\<close>

definition regex_match :: "env \<Rightarrow> item \<Rightarrow> string \<Rightarrow> error + bool" where
  "regex_match e item regex_query =
     (let match_time = re_search e regex_query (pretty_date_time (now e) (submission_time item));
          match_user = re_search e regex_query (item_by item)
      in case item_text item of
           None \<Rightarrow> Inl (TypeError ''expected string or buffer'')
         | Some t \<Rightarrow>
             (let match_text = re_search e regex_query t
              in if \<not> match_text \<and> \<not> match_user \<and> \<not> match_time then Inr False
                 else Inr True))"

subsection \<open>\<open>print_formatted_comment\<close> and \<open>print_comments\<close>\<close>

text \<open>
  A call returns the exception it raised, if any, with the state as the exception
  left it. \<open>HTML2Text.handle\<close> is given the body text; on \<open>None\<close> it raises
  (\<open>feed\<close> calls \<open>data.replace\<close>).
\<close>

definition print_formatted_comment ::
  "env \<Rightarrow> item \<Rightarrow> int \<Rightarrow> hacker_news \<Rightarrow> error option \<times> hacker_news" where
  "print_formatted_comment e item depth w =
     (let indent = concat (replicate (nat depth) COMMENT_INDENT);
          w1 = secho ([CHR 0x0A] @ indent @ item_by item @ '' - '' @
                 pretty_date_time (now e) (submission_time item)) ''yellow'' True w
      in case item_text item of
           None \<Rightarrow> (Some (AttributeError ''NoneType'' ''replace''), w1)
         | Some t \<Rightarrow>
             (let markdown = html_to_text e t;
                  markdown = sub_literal [CHR 0x0A, CHR 0x0A] ([CHR 0x0A, CHR 0x0A] @ indent) markdown;
                  wrapped_markdown = wrap_text e markdown indent
              in (None, echo wrapped_markdown w1)))"

text \<open>
  \<open>print_comments\<close> recurses through the items it fetches and need not return (the
  remote source may answer with kids that lead back to an ancestor). The first
  argument bounds the depth of the recursion; \<open>None\<close> is a call that has not returned
  within the bound. \<open>comments_loop\<close> is the \<open>for\<close> loop over \<open>comment_ids\<close>.
\<close>

fun print_comments ::
    "nat \<Rightarrow> env \<Rightarrow> item \<Rightarrow> string \<Rightarrow> int \<Rightarrow> hacker_news \<Rightarrow> (error option \<times> hacker_news) option"
  and comments_loop ::
    "nat \<Rightarrow> env \<Rightarrow> ident list \<Rightarrow> string \<Rightarrow> int \<Rightarrow> hacker_news \<Rightarrow> (error option \<times> hacker_news) option"
where
  "print_comments 0 e item regex_query depth w = None"
| "print_comments (Suc n) e item regex_query depth w =
     (let comment_ids = kids item;
          printed =
            (if item_text item \<noteq> None then
               (case (if regex_query \<noteq> [] then regex_match e item regex_query else Inr True) of
                  Inl err \<Rightarrow> (Some err, w)
                | Inr print_comment \<Rightarrow>
                    if print_comment then print_formatted_comment e item depth w else (None, w))
             else (None, w))
      in case printed of
           (Some err, w') \<Rightarrow> Some (Some err, w')
         | (None, w') \<Rightarrow>
             (case comment_ids of
                None \<Rightarrow> Some (None, w')
              | Some ids \<Rightarrow> if ids = [] then Some (None, w') else comments_loop n e ids regex_query depth w'))"
| "comments_loop n e [] regex_query depth w = Some (None, w)"
| "comments_loop n e (comment_id # rest) regex_query depth w =
     (let comment = get_item e comment_id;
          depth = depth + 1
      in case print_comments n e comment regex_query depth w of
           None \<Rightarrow> None
         | Some (Some err, w') \<Rightarrow> Some (Some err, w')
         | Some (None, w') \<Rightarrow> comments_loop n e rest regex_query (depth - 1) w')"

subsection \<open>\<open>print_formatted_item\<close>, \<open>save_item_ids\<close> and \<open>print_items\<close>\<close>

definition print_formatted_item ::
  "env \<Rightarrow> item \<Rightarrow> int \<Rightarrow> hacker_news \<Rightarrow> error option \<times> hacker_news" where
  "print_formatted_item e item index w =
     (let w1 = secho (''  '' @ str_int index @ ''. '') ''magenta'' False w
      in case title item of
           None \<Rightarrow> (Some (TypeError (''unsupported operand type(s) for +: '' @ repr_str ''NoneType'' @
                     '' and '' @ repr_str ''str'')), w1)
         | Some t \<Rightarrow>
             (let w2 = secho (t @ ''. '') ''blue'' False w1;
                  w3 = (case url item of
                          Some u \<Rightarrow> secho (''('' @ sub_www (netloc e u) @ '')'') ''magenta'' True w2
                        | None \<Rightarrow> echo [] w2);
                  w4 = secho (''     '' @ (case score item of None \<Rightarrow> ''None'' | Some n \<Rightarrow> str_int n)
                         @ '' points '') ''green'' False w3;
                  w5 = secho (''by '' @ item_by item @ '' '') ''yellow'' False w4;
                  w6 = secho (pretty_date_time (now e) (submission_time item) @ '' '') ''cyan'' False w5;
                  num_comments = (case descendants item of
                                    None \<Rightarrow> ''0''
                                  | Some n \<Rightarrow> if n \<noteq> 0 then str_int n else ''0'');
                  w7 = secho (''| '' @ num_comments @ '' comments'' @ [CHR 0x0A]) ''green'' True w6
              in (None, w7\<lparr>item_ids := item_ids w7 @ [item_id item]\<rparr>)))"

text \<open>
  \<open>save_item_ids\<close>: a parser with the one section and the one option, whose value is
  written as \<open>str(self.item_ids)\<close>, replaces the file.
\<close>

definition save_item_ids :: "hacker_news \<Rightarrow> hacker_news" where
  "save_item_ids w =
     w\<lparr>config_file := Some [(CONFIG_SECTION, [(CONFIG_INDEX, str_list (item_ids w))])]\<rparr>"

text \<open>The \<open>for\<close> loop of \<open>print_items\<close>, with its counter \<open>index\<close>.\<close>

fun print_items_loop ::
  "env \<Rightarrow> ident list \<Rightarrow> int \<Rightarrow> hacker_news \<Rightarrow> error option \<times> hacker_news" where
  "print_items_loop e [] index w = (None, w)"
| "print_items_loop e (i # rest) index w =
     (let item = get_item e i
      in if truthy (title item) then
           (case print_formatted_item e item index w of
              (Some err, w') \<Rightarrow> (Some err, w')
            | (None, w') \<Rightarrow> print_items_loop e rest (index + 1) w')
         else print_items_loop e rest index w)"

definition print_items ::
  "env \<Rightarrow> string \<Rightarrow> ident list \<Rightarrow> hacker_news \<Rightarrow> error option \<times> hacker_news" where
  "print_items e message ids w =
     (let w1 = secho ([CHR 0x0A] @ message @ [CHR 0x0A]) ''blue'' True w
      in case print_items_loop e ids 1 w1 of
           (Some err, w') \<Rightarrow> (Some err, w')
         | (None, w') \<Rightarrow>
             (let w2 = save_item_ids w';
                  w3 = secho TIP ''blue'' True w2
              in (None, echo [] w3)))"

subsection \<open>\<open>print_url_contents\<close> and \<open>view\<close>\<close>

definition print_url_contents :: "env \<Rightarrow> item \<Rightarrow> hacker_news \<Rightarrow> error option \<times> hacker_news" where
  "print_url_contents e item w =
     (case url item of
        None \<Rightarrow> (Some (TypeError ''None object cannot be quoted''), w)
      | Some u \<Rightarrow>
          (let url_encoded = URL_W3_HTML_TEXT @ url_quote e u;
               response = http_get e url_encoded
           in (None, echo_via_pager response w)))"

text \<open>\<open>parser.get(section, option)\<close> on the file read.\<close>

definition parser_get :: "config \<Rightarrow> string \<Rightarrow> string \<Rightarrow> error + string" where
  "parser_get cfg section option =
     (case map_of cfg section of
        None \<Rightarrow> Inl (NoSectionError section)
      | Some options \<Rightarrow>
          (case map_of options option of
             None \<Rightarrow> Inl (NoOptionError option section)
           | Some v \<Rightarrow> Inr v))"

text \<open>
  The first statements of the \<open>try\<close> block of \<open>view\<close>, up to the assignment of
  \<open>self.item_ids\<close>: the file is read, the value stripped, the characters of \<open>excludes\<close>
  removed and the rest split at \<open>', '\<close>.
\<close>

definition load_item_ids :: "env \<Rightarrow> hacker_news \<Rightarrow> error + hacker_news" where
  "load_item_ids e w =
     (case config_file w of
        None \<Rightarrow> Inl (IOError (config_path e CONFIG))
      | Some cfg \<Rightarrow>
          (case parser_get cfg CONFIG_SECTION CONFIG_INDEX of
             Inl err \<Rightarrow> Inl err
           | Inr v \<Rightarrow>
               (let items_ids = py_strip v;
                    excludes = [CHR ''['', CHR '']'', CHR 0x27];
                    items_ids = foldl (\<lambda>s exclude. py_remove exclude s) items_ids excludes
                in Inr (w\<lparr>item_ids := map StrId (py_split '', '' items_ids)\<rparr>))))"

text \<open>The rest of the \<open>try\<close> block, once the item is fetched.\<close>

definition view_item ::
  "nat \<Rightarrow> env \<Rightarrow> item \<Rightarrow> string \<Rightarrow> bool \<Rightarrow> hacker_news \<Rightarrow> (error option \<times> hacker_news) option" where
  "view_item fuel e item comments_query comments w =
     (if comments then
        (let comments_url = URL_POST @ py_str (item_id item);
             w1 = secho (''Fetching Comments from '' @ comments_url) ''blue'' True w
         in print_comments fuel e item comments_query 0 w1)
      else
        (case url item of
           None \<Rightarrow> Some (Some (TypeError (''cannot concatenate '' @ repr_str ''str'' @ '' and '' @
                     repr_str ''NoneType'' @ '' objects'')), w)
         | Some u \<Rightarrow>
             Some (print_url_contents e item (secho (''Opening '' @ u @ ''...'') ''blue'' True w))))"

text \<open>The handler \<open>except Exception as e\<close>.\<close>

definition report :: "error \<Rightarrow> hacker_news \<Rightarrow> hacker_news" where
  "report err w = secho (''Error: '' @ str_error err) ''red'' True w"

definition view :: "nat \<Rightarrow> env \<Rightarrow> int \<Rightarrow> string \<Rightarrow> bool \<Rightarrow> hacker_news \<Rightarrow> hacker_news option" where
  "view fuel e index comments_query comments w =
     (case load_item_ids e w of
        Inl err \<Rightarrow> Some (report err w)
      | Inr w1 \<Rightarrow>
          (case py_getitem (item_ids w1) (index - 1) of
             Inl err \<Rightarrow> Some (report err w1)
           | Inr i \<Rightarrow>
               (case view_item fuel e (get_item e i) comments_query comments w1 of
                  None \<Rightarrow> None
                | Some (Some err, w2) \<Rightarrow> Some (report err w2)
                | Some (None, w2) \<Rightarrow> Some w2)))"

section \<open>What the properties are stated with\<close>

subsection \<open>Lines of one comment and of one row\<close>

text \<open>
  The lines \<open>print_formatted_comment\<close> and \<open>print_formatted_item\<close> write, read off a
  call on an empty terminal.
\<close>

definition comment_lines :: "env \<Rightarrow> item \<Rightarrow> int \<Rightarrow> terminal_line list" where
  "comment_lines e item depth = terminal (snd (print_formatted_comment e item depth (init None)))"

definition item_row :: "env \<Rightarrow> item \<Rightarrow> int \<Rightarrow> terminal_line list" where
  "item_row e item index = terminal (snd (print_formatted_item e item index (init None)))"

subsection \<open>Comment trees\<close>

text \<open>
  A comment tree: an item with the trees of its kids, in the order of \<open>kids\<close>. The
  remote source holds the tree when fetching the kids of each node gives the roots
  of its subtrees. \<open>preorder\<close> lists the nodes, each before its subtrees and the
  subtrees from left to right, with the distance from the root added to the depth
  of the root.
\<close>

datatype ctree = Node item "ctree list"

fun root :: "ctree \<Rightarrow> item" where
  "root (Node i ts) = i"

fun height :: "ctree \<Rightarrow> nat" where
  "height (Node i ts) = Suc (foldr max (map height ts) 0)"

fun holds_tree :: "env \<Rightarrow> ctree \<Rightarrow> bool" where
  "holds_tree e (Node i ts) =
     ((case kids i of
         None \<Rightarrow> ts = []
       | Some ids \<Rightarrow> map (get_item e) ids = map root ts) \<and>
      list_all (holds_tree e) ts)"

fun preorder :: "int \<Rightarrow> ctree \<Rightarrow> (item \<times> int) list" where
  "preorder depth (Node i ts) = (i, depth) # concat (map (preorder (depth + 1)) ts)"

text \<open>
  The test of \<open>print_comments\<close> on one node: it has a body text, and the pattern is
  empty or matches.
\<close>

definition rendered :: "env \<Rightarrow> string \<Rightarrow> item \<Rightarrow> bool" where
  "rendered e regex_query i =
     (item_text i \<noteq> None \<and> (regex_query = [] \<or> regex_match e i regex_query = Inr True))"

text \<open>The lines of one node and of a whole tree, in the order of \<open>preorder\<close>.\<close>

definition node_lines :: "env \<Rightarrow> string \<Rightarrow> int \<Rightarrow> item \<Rightarrow> terminal_line list" where
  "node_lines e q depth i = (if rendered e q i then comment_lines e i depth else [])"

definition tree_lines :: "env \<Rightarrow> string \<Rightarrow> int \<Rightarrow> ctree \<Rightarrow> terminal_line list" where
  "tree_lines e q depth t =
     concat (map (\<lambda>(i, d). comment_lines e i d) (filter (\<lambda>(i, d). rendered e q i) (preorder depth t)))"

subsection \<open>Listings\<close>

text \<open>
  The items of a listing that have a true title, in the order of the identifiers, and
  their rows numbered from \<open>first\<close> on.
\<close>

definition titled :: "env \<Rightarrow> ident list \<Rightarrow> item list" where
  "titled e ids = filter (\<lambda>item. truthy (title item)) (map (get_item e) ids)"

definition numbered_rows :: "env \<Rightarrow> item list \<Rightarrow> int \<Rightarrow> terminal_line list" where
  "numbered_rows e items first =
     concat (map (\<lambda>(item, index). item_row e item index)
       (zip items [first..first + int (length items) - 1]))"

subsection \<open>Characters of a decimal rendering\<close>

definition decimal_chars :: "char set" where
  "decimal_chars = set ''-0123456789''"

subsection \<open>A remote source for the examples\<close>

text \<open>
  Two stories (42 and 7) and an item without a title (99); the comment tree
  \<open>A \<rightarrow> [B, C]\<close>, \<open>B \<rightarrow> [D]\<close> under the identifiers 1 to 4. The pattern search of the
  examples is the search for a substring, which is what \<open>re.search\<close> does for a
  pattern without metacharacters; their \<open>netloc\<close> is the text between \<open>//\<close> and the
  next slash.
\<close>

definition story :: "int \<Rightarrow> string option \<Rightarrow> string option \<Rightarrow> item" where
  "story n t u =
     \<lparr>item_id = IntId n, item_by = ''pg'', title = t, url = u, item_text = None,
      score = Some 10, descendants = None, submission_time = Datetime 0, kids = None\<rparr>"

definition comment :: "int \<Rightarrow> string \<Rightarrow> string \<Rightarrow> int list \<Rightarrow> item" where
  "comment n author body ks =
     \<lparr>item_id = IntId n, item_by = author, title = None, url = None, item_text = Some body,
      score = None, descendants = None, submission_time = Datetime 0,
      kids = (if ks = [] then None else Some (map IntId ks))\<rparr>"

definition item_A :: item where
  "item_A = comment 1 ''alice'' ''first'' [2, 3]"

definition item_B :: item where
  "item_B = comment 2 ''bob'' ''second'' [4]"

definition item_C :: item where
  "item_C = comment 3 ''carol'' ''third'' []"

definition item_D :: item where
  "item_D = comment 4 ''dave'' ''fourth'' []"

definition tree_A :: ctree where
  "tree_A = Node item_A [Node item_B [Node item_D []], Node item_C []]"

definition example_get_item :: "ident \<Rightarrow> item" where
  "example_get_item i =
     (if i = IntId 1 then item_A
      else if i = IntId 2 then item_B
      else if i = IntId 3 then item_C
      else if i = IntId 4 then item_D
      else if i = IntId 42 then story 42 (Some ''Alpha'') (Some ''http://www.example.com/a'')
      else if i = IntId 7 then story 7 (Some ''Beta'') None
      else if i = IntId 5 then story 5 (Some ''Gamma'') (Some ''https://www.awwwards.com/'')
      else story 99 None None)"

fun contains :: "string \<Rightarrow> string \<Rightarrow> bool" where
  "contains p [] = (p = [])"
| "contains p (c # cs) = (take (length p) (c # cs) = p \<or> contains p cs)"

definition example_netloc :: "string \<Rightarrow> string" where
  "example_netloc u = takeWhile (\<lambda>c. c \<noteq> CHR ''/'') (drop 2 (dropWhile (\<lambda>c. c \<noteq> CHR ''/'') u))"

definition example_env :: env where
  "example_env =
     \<lparr>get_item = example_get_item, now = 30 * us_per_second, re_search = contains,
      netloc = example_netloc, html_to_text = (\<lambda>t. t), wrap_text = (\<lambda>t indent. indent @ t),
      url_quote = (\<lambda>u. u), http_get = (\<lambda>u. []), home = ''/home/user''\<rparr>"

section \<open>Verified properties\<close>

subsection \<open>The relative-age label\<close>






lemma str_int_small:
  "str_int 1 = ''1''" "str_int 2 = ''2''" "str_int 4 = ''4''" "str_int 6 = ''6''"
  "str_int 10 = ''10''" "str_int 12 = ''12''" "str_int 59 = ''59''"
  by (simp_all add: str_int_def str_nat.simps digit_char_def)



text \<open>
  C5, as the code has it. A submission time in the future (a negative elapsed time)
  gives the empty string, whether it is a \<open>datetime\<close> or an epoch timestamp. An absent
  submission time does not: the branch \<open>elif not date_time\<close> takes the elapsed time to be
  zero, and the label is "just now".
\<close>

theorem pretty_date_time_future_or_absent:
  "(clock < t \<longrightarrow> pretty_date_time clock (Datetime t) = []) \<and>
   (clock < fromtimestamp s \<longrightarrow> pretty_date_time clock (Timestamp s) = []) \<and>
   pretty_date_time clock Absent = ''just now''"
proof -
  have neg: "td_days x < 0" if "x < 0" for x
    using that by (simp add: td_days_def us_per_day_def us_per_second_def neg_imp_zdiv_neg_iff)
  have "pretty_date_time clock Absent = ''just now''"
    by (simp add: pretty_date_time_def td_days_def td_seconds_def same_day_label_def)
  then show ?thesis
    by (simp add: pretty_date_time_def Let_def neg)
qed

theorem pretty_date_time_future_or_absent_witness:
  "(1446550000000000::int) < 1446550000000001 \<and>
   pretty_date_time 1446550000000000 (Datetime 1446550000000001) = [] \<and>
   (1446550000000000::int) < fromtimestamp 1446550001 \<and>
   pretty_date_time 1446550000000000 (Timestamp 1446550001) = [] \<and>
   pretty_date_time 1446550000000000 Absent = ''just now''"
  using pretty_date_time_future_or_absent [of 1446550000000000 1446550000000001 1446550001]
  by (simp add: fromtimestamp_def us_per_second_def)

theorem pretty_date_time_absent_counterexample:
  "pretty_date_time 1446550000000000 Absent = ''just now'' \<and>
   pretty_date_time 1446550000000000 Absent \<noteq> []"
  by (simp add: pretty_date_time_def td_days_def td_seconds_def same_day_label_def)

subsection \<open>Rendering and parsing the list of identifiers\<close>

lemma digit_char_in: "digit_char d \<in> decimal_chars"
proof -
  have "d mod 10 < length ''0123456789''" by simp
  then have "''0123456789'' ! (d mod 10) \<in> set ''0123456789''" by (rule nth_mem)
  moreover have "set ''0123456789'' \<subseteq> decimal_chars"
    unfolding decimal_chars_def by (rule set_subset_Cons)
  ultimately show ?thesis unfolding digit_char_def by (rule subsetD [rotated])
qed

lemma str_nat_chars: "set (str_nat n) \<subseteq> decimal_chars"
proof (induction n rule: str_nat.induct)
  case (1 n)
  show ?case
  proof (cases "n < 10")
    case True
    then have "str_nat n = [digit_char n]" by (subst str_nat.simps) simp
    then show ?thesis by (simp add: digit_char_in)
  next
    case False
    then have "str_nat n = str_nat (n div 10) @ [digit_char (n mod 10)]"
      by (subst str_nat.simps) simp
    then show ?thesis using "1.IH" [OF False] by (simp add: digit_char_in)
  qed
qed

lemma str_int_chars: "set (str_int i) \<subseteq> decimal_chars"
proof (cases "i < 0")
  case True
  have "CHR ''-'' \<in> decimal_chars" by (simp add: decimal_chars_def)
  then show ?thesis using True str_nat_chars [of "nat (- i)"] by (simp add: str_int_def)
next
  case False
  then show ?thesis using str_nat_chars [of "nat i"] by (simp add: str_int_def)
qed

lemma decimal_chars_plain:
  "CHR ''['' \<notin> decimal_chars" "CHR '']'' \<notin> decimal_chars" "CHR 0x27 \<notin> decimal_chars"
  "CHR '','' \<notin> decimal_chars" "CHR '' '' \<notin> decimal_chars"
  by (simp_all add: decimal_chars_def)

lemma py_strip_id:
  assumes "s \<noteq> []" "\<not> py_isspace (hd s)" "\<not> py_isspace (last s)"
  shows "py_strip s = s"
proof -
  have "dropWhile py_isspace s = s"
    using assms(1,2) by (cases s) auto
  moreover have "dropWhile py_isspace (rev s) = rev s"
    using assms(1,3) by (cases s rule: rev_cases) auto
  ultimately show ?thesis
    by (simp add: py_strip_def)
qed

lemma split_piece:
  assumes "CHR '','' \<notin> set p"
  shows "py_split '', '' (p @ '', '' @ rest) = p # py_split '', '' rest"
  using assms
proof (induction p)
  case Nil
  show ?case by (simp add: starts_with_def)
next
  case (Cons c p)
  then have "\<not> starts_with '', '' (c # p @ '', '' @ rest)"
    by (auto simp: starts_with_def)
  then show ?case using Cons by simp
qed

lemma split_last:
  assumes "CHR '','' \<notin> set p"
  shows "py_split '', '' p = [p]"
  using assms
proof (induction p)
  case Nil
  show ?case by simp
next
  case (Cons c p)
  then have "\<not> starts_with '', '' (c # p)"
    by (auto simp: starts_with_def)
  then show ?case using Cons by simp
qed

lemma split_join:
  assumes "xs \<noteq> []" "\<forall>x \<in> set xs. CHR '','' \<notin> set x"
  shows "py_split '', '' (join '', '' xs) = xs"
  using assms
proof (induction xs)
  case Nil
  then show ?case by simp
next
  case (Cons x xs)
  show ?case
  proof (cases xs)
    case Nil
    then show ?thesis using Cons.prems by (simp add: split_last)
  next
    case (Cons y ys)
    then have "py_split '', '' (join '', '' xs) = xs"
      using Cons.IH Cons.prems by simp
    then show ?thesis
      using Cons Cons.prems split_piece [of x "join '', '' xs"] by simp
  qed
qed

lemma set_join: "set (join sep xs) \<subseteq> set sep \<union> \<Union> (set ` set xs)"
  by (induction sep xs rule: join.induct) auto

lemma remove_excludes:
  "foldl (\<lambda>s exclude. py_remove exclude s) s [CHR ''['', CHR '']'', CHR 0x27] =
     filter (\<lambda>c. c \<noteq> CHR ''['' \<and> c \<noteq> CHR '']'' \<and> c \<noteq> CHR 0x27) s"
  by (simp add: py_remove_def conj_commute conj_left_commute)

lemma join_str_int_chars: "set (join '', '' (map str_int ids)) \<subseteq> insert CHR '','' (insert CHR '' '' decimal_chars)"
proof -
  have "set (join '', '' (map str_int ids)) \<subseteq> set '', '' \<union> \<Union> (set ` set (map str_int ids))"
    by (rule set_join)
  moreover have "\<Union> (set ` set (map str_int ids)) \<subseteq> decimal_chars"
    using str_int_chars by auto
  ultimately show ?thesis by auto
qed

lemma load_int_list:
  assumes "ids \<noteq> []"
  shows "map StrId (py_split '', ''
           (foldl (\<lambda>s exclude. py_remove exclude s) (py_strip (str_list (map IntId ids)))
              [CHR ''['', CHR '']'', CHR 0x27])) = map (\<lambda>n. StrId (str_int n)) ids"
proof -
  define body where "body = join '', '' (map str_int ids)"
  have repr: "map py_repr (map IntId ids) = map str_int ids"
    by simp
  have rendering: "str_list (map IntId ids) = ''['' @ body @ '']''"
    by (simp only: str_list_def repr body_def)
  have strip: "py_strip (''['' @ body @ '']'') = ''['' @ body @ '']''"
    by (rule py_strip_id) (simp_all add: py_isspace_def)
  have "\<forall>c \<in> set body. c \<noteq> CHR ''['' \<and> c \<noteq> CHR '']'' \<and> c \<noteq> CHR 0x27"
    using join_str_int_chars [of ids] decimal_chars_plain unfolding body_def by auto
  then have keep: "filter (\<lambda>c. c \<noteq> CHR ''['' \<and> c \<noteq> CHR '']'' \<and> c \<noteq> CHR 0x27) body = body"
    by (simp add: filter_id_conv)
  have "foldl (\<lambda>s exclude. py_remove exclude s) (py_strip (str_list (map IntId ids)))
      [CHR ''['', CHR '']'', CHR 0x27] = body"
    by (simp only: rendering strip remove_excludes) (simp add: keep)
  moreover have "py_split '', '' body = map str_int ids"
    unfolding body_def
  proof (rule split_join)
    show "map str_int ids \<noteq> []" using assms by simp
    show "\<forall>x \<in> set (map str_int ids). CHR '','' \<notin> set x"
      using str_int_chars decimal_chars_plain by auto
  qed
  ultimately show ?thesis
    by (simp add: comp_def)
qed

lemma load_empty_list:
  "map StrId (py_split '', ''
     (foldl (\<lambda>s exclude. py_remove exclude s) (py_strip (str_list []))
        [CHR ''['', CHR '']'', CHR 0x27])) = [StrId []]"
  by (simp add: str_list_def py_strip_def py_isspace_def py_remove_def)

lemma load_saved:
  "load_item_ids e (init (config_file (save_item_ids w))) =
     Inr ((init (config_file (save_item_ids w)))\<lparr>item_ids := map StrId (py_split '', ''
       (foldl (\<lambda>s exclude. py_remove exclude s) (py_strip (str_list (item_ids w)))
          [CHR ''['', CHR '']'', CHR 0x27]))\<rparr>)"
  by (simp add: load_item_ids_def save_item_ids_def init_def parser_get_def Let_def
      CONFIG_SECTION_def CONFIG_INDEX_def)

subsection \<open>The listing loop\<close>

lemma print_formatted_item_row:
  assumes "title item = Some t"
  shows "print_formatted_item e item index w =
           (None, w\<lparr>item_ids := item_ids w @ [item_id item],
                    terminal := terminal w @ item_row e item index\<rparr>)"
  using assms
  by (simp add: print_formatted_item_def item_row_def Let_def secho_def echo_def init_def
      split: option.split)

lemma numbered_rows_Nil: "numbered_rows e [] first = []"
  by (simp add: numbered_rows_def)

lemma numbered_rows_Cons:
  "numbered_rows e (item # items) first = item_row e item first @ numbered_rows e items (first + 1)"
proof -
  have "[first..first + int (length (item # items)) - 1] =
        first # [first + 1..first + 1 + int (length items) - 1]"
    by (simp add: upto_rec1)
  then show ?thesis
    by (simp add: numbered_rows_def)
qed

lemma print_items_loop_rows:
  "print_items_loop e ids index w =
     (None, w\<lparr>item_ids := item_ids w @ map item_id (titled e ids),
              terminal := terminal w @ numbered_rows e (titled e ids) index\<rparr>)"
proof (induction ids arbitrary: index w)
  case Nil
  show ?case by (simp add: titled_def numbered_rows_Nil)
next
  case (Cons i ids)
  show ?case
  proof (cases "truthy (title (get_item e i))")
    case True
    then obtain t where t: "title (get_item e i) = Some t"
      by (cases "title (get_item e i)") auto
    have tl: "titled e (i # ids) = get_item e i # titled e ids"
      using True by (simp add: titled_def)
    show ?thesis
      using True
      by (simp add: Let_def print_formatted_item_row [OF t] Cons.IH tl numbered_rows_Cons)
  next
    case False
    then have "titled e (i # ids) = titled e ids"
      by (simp add: titled_def)
    then show ?thesis
      using False by (simp add: Let_def Cons.IH)
  qed
qed

lemma print_items_result:
  "print_items e message ids w =
     (None, w\<lparr>item_ids := item_ids w @ map item_id (titled e ids),
              config_file := Some [(CONFIG_SECTION,
                [(CONFIG_INDEX, str_list (item_ids w @ map item_id (titled e ids)))])],
              terminal := terminal w @ [Secho ([CHR 0x0A] @ message @ [CHR 0x0A]) ''blue'' True] @
                numbered_rows e (titled e ids) 1 @ [Secho TIP ''blue'' True, Echo []]\<rparr>)"
  by (simp add: print_items_def Let_def print_items_loop_rows secho_def echo_def save_item_ids_def)

subsection \<open>The traversal of a comment tree\<close>

lemma print_formatted_comment_lines:
  assumes "item_text item = Some t"
  shows "print_formatted_comment e item depth w =
           (None, w\<lparr>terminal := terminal w @ comment_lines e item depth\<rparr>)"
  using assms
  by (simp add: print_formatted_comment_def comment_lines_def Let_def secho_def echo_def init_def)

lemma concat_lines:
  "concat (map f (filter P (concat (map g ts)))) =
     concat (map (\<lambda>t. concat (map f (filter P (g t)))) ts)"
  by (induction ts) auto

lemma tree_lines_Node:
  "tree_lines e q depth (Node i ts) =
     node_lines e q depth i @ concat (map (tree_lines e q (depth + 1)) ts)"
  by (simp add: tree_lines_def [abs_def] node_lines_def concat_lines)

lemma regex_match_cases:
  "item_text i \<noteq> None \<Longrightarrow> regex_match e i q = Inr True \<or> regex_match e i q = Inr False"
  by (auto simp: regex_match_def Let_def split: if_splits)

lemma print_node:
  "(if item_text i \<noteq> None then
      (case (if q \<noteq> [] then regex_match e i q else Inr True) of
         Inl err \<Rightarrow> (Some err, w)
       | Inr print_comment \<Rightarrow>
           if print_comment then print_formatted_comment e i depth w else (None, w))
    else (None, w)) = (None, w\<lparr>terminal := terminal w @ node_lines e q depth i\<rparr>)"
proof (cases "item_text i")
  case None
  then show ?thesis by (simp add: node_lines_def rendered_def)
next
  case (Some t)
  then show ?thesis
    using regex_match_cases [of i e q]
    by (auto simp: node_lines_def rendered_def print_formatted_comment_lines)
qed

lemma print_comments_Suc:
  "print_comments (Suc n) e i q depth w =
     (let w' = w\<lparr>terminal := terminal w @ node_lines e q depth i\<rparr>
      in case kids i of
           None \<Rightarrow> Some (None, w')
         | Some ids \<Rightarrow> if ids = [] then Some (None, w') else comments_loop n e ids q depth w')"
  by (simp only: print_comments.simps Let_def print_node) simp

lemma height_child: "t \<in> set ts \<Longrightarrow> height t \<le> foldr max (map height ts) 0"
  by (induction ts) auto

lemma comments_loop_trees:
  assumes "\<And>t depth w. t \<in> set ts \<Longrightarrow>
             print_comments n e (root t) q depth w =
               Some (None, w\<lparr>terminal := terminal w @ tree_lines e q depth t\<rparr>)"
    and "map (get_item e) ids = map root ts"
  shows "comments_loop n e ids q depth w =
           Some (None, w\<lparr>terminal := terminal w @ concat (map (tree_lines e q (depth + 1)) ts)\<rparr>)"
  using assms
proof (induction ts arbitrary: ids w)
  case Nil
  then show ?case by simp
next
  case (Cons t ts)
  from Cons.prems(2) obtain i rest where ids: "ids = i # rest"
    and i: "get_item e i = root t" and rest: "map (get_item e) rest = map root ts"
    by (cases ids) auto
  have first: "print_comments n e (root t) q (depth + 1) w =
      Some (None, w\<lparr>terminal := terminal w @ tree_lines e q (depth + 1) t\<rparr>)"
    by (rule Cons.prems(1)) simp
  have "comments_loop n e rest q depth (w\<lparr>terminal := terminal w @ tree_lines e q (depth + 1) t\<rparr>) =
      Some (None, w\<lparr>terminal := terminal w @ tree_lines e q (depth + 1) t @
        concat (map (tree_lines e q (depth + 1)) ts)\<rparr>)"
    using Cons.IH [OF _ rest] Cons.prems(1) by simp
  then show ?case
    by (simp add: ids i first Let_def)
qed

lemma print_comments_tree:
  "holds_tree e t \<Longrightarrow> height t \<le> fuel \<Longrightarrow>
   print_comments fuel e (root t) q depth w =
     Some (None, w\<lparr>terminal := terminal w @ tree_lines e q depth t\<rparr>)"
proof (induction t arbitrary: fuel depth w)
  case (Node i ts)
  from Node.prems(2) obtain n where fuel: "fuel = Suc n" and n: "foldr max (map height ts) 0 \<le> n"
    by (cases fuel) auto
  have kids_ok: "\<And>t depth w. t \<in> set ts \<Longrightarrow>
      print_comments n e (root t) q depth w =
        Some (None, w\<lparr>terminal := terminal w @ tree_lines e q depth t\<rparr>)"
  proof -
    fix t depth w
    assume t: "t \<in> set ts"
    then have "holds_tree e t"
      using Node.prems(1) by (simp add: list_all_iff)
    moreover have "height t \<le> n"
      using height_child [OF t] n by simp
    ultimately show "print_comments n e (root t) q depth w =
        Some (None, w\<lparr>terminal := terminal w @ tree_lines e q depth t\<rparr>)"
      using Node.IH [OF t] by simp
  qed
  show ?case
  proof (cases "kids i")
    case None
    then have "ts = []" using Node.prems(1) by simp
    then show ?thesis
      by (simp add: fuel print_comments_Suc None tree_lines_Node del: print_comments.simps)
  next
    case (Some ids)
    then have ids: "map (get_item e) ids = map root ts"
      using Node.prems(1) by simp
    show ?thesis
    proof (cases "ids = []")
      case True
      then have "ts = []" using ids by simp
      then show ?thesis
        by (simp add: fuel print_comments_Suc Some True tree_lines_Node del: print_comments.simps)
    next
      case False
      then show ?thesis
        by (simp add: fuel print_comments_Suc Some tree_lines_Node
            comments_loop_trees [OF kids_ok ids] del: print_comments.simps)
    qed
  qed
qed

subsection \<open>The session index\<close>

lemma py_split_nonempty: "py_split sep s \<noteq> []"
  by (induction sep s rule: py_split.induct) (auto split: list.splits)

lemma load_item_ids_nonempty:
  assumes "load_item_ids e w = Inr w1"
  shows "item_ids w1 \<noteq> []"
  using assms
  by (auto simp: load_item_ids_def Let_def py_split_nonempty split: option.splits sum.splits)

lemma py_getitem_fails:
  "py_getitem xs i = Inl IndexError \<longleftrightarrow> int (length xs) \<le> i \<or> i < - int (length xs)"
  by (auto simp: py_getitem_def Let_def)

lemma str_int_ids: "str_int 42 = ''42''" "str_int 7 = ''7''"
  by (simp_all add: str_int_def str_nat.simps digit_char_def)

text \<open>
  C1. When the attribute holds a non-empty sequence of integer identifiers,
  \<open>save_item_ids\<close> followed by the load of \<open>view\<close> in a fresh process gives the same
  sequence, each identifier as its decimal string, and the lookup at the 1-based
  position \<open>k\<close> gives the \<open>k\<close>-th of them. For 42 and 7 the lookups at 1 and 2 give
  \<open>'42'\<close> and \<open>'7'\<close>.
\<close>

theorem item_ids_round_trip:
  assumes "ids \<noteq> []" and "item_ids w = map IntId ids"
  shows "load_item_ids e (init (config_file (save_item_ids w))) =
           Inr ((init (config_file (save_item_ids w)))
                  \<lparr>item_ids := map (\<lambda>n. StrId (str_int n)) ids\<rparr>) \<and>
         (\<forall>k. 1 \<le> k \<and> k \<le> int (length ids) \<longrightarrow>
            py_getitem (map (\<lambda>n. StrId (str_int n)) ids) (k - 1) =
              Inr (StrId (str_int (ids ! nat (k - 1)))))"
proof -
  have "load_item_ids e (init (config_file (save_item_ids w))) =
           Inr ((init (config_file (save_item_ids w)))
                  \<lparr>item_ids := map (\<lambda>n. StrId (str_int n)) ids\<rparr>)"
    by (simp only: load_saved assms(2) load_int_list [OF assms(1)])
  moreover have "\<forall>k. 1 \<le> k \<and> k \<le> int (length ids) \<longrightarrow>
            py_getitem (map (\<lambda>n. StrId (str_int n)) ids) (k - 1) =
              Inr (StrId (str_int (ids ! nat (k - 1))))"
    by (auto simp: py_getitem_def Let_def)
  ultimately show ?thesis by blast
qed

theorem item_ids_round_trip_witness:
  "[42, 7] \<noteq> ([] :: int list) \<and>
   load_item_ids example_env
       (init (config_file (save_item_ids ((init None)\<lparr>item_ids := [IntId 42, IntId 7]\<rparr>)))) =
     Inr \<lparr>item_ids = [StrId ''42'', StrId ''7''],
          config_file = Some [(''hncli'', [(''item_ids'', ''[42, 7]'')])],
          terminal = []\<rparr> \<and>
   py_getitem [StrId ''42'', StrId ''7''] (1 - 1) = Inr (StrId ''42'') \<and>
   py_getitem [StrId ''42'', StrId ''7''] (2 - 1) = Inr (StrId ''7'')"
proof -
  have ne: "[42, 7] \<noteq> ([] :: int list)"
    by simp
  have ids: "item_ids ((init None)\<lparr>item_ids := [IntId 42, IntId 7]\<rparr>) = map IntId [42, 7]"
    by simp
  have saved: "config_file (save_item_ids ((init None)\<lparr>item_ids := [IntId 42, IntId 7]\<rparr>)) =
      Some [(''hncli'', [(''item_ids'', ''[42, 7]'')])]"
    by (simp add: save_item_ids_def init_def str_list_def str_int_ids CONFIG_SECTION_def
        CONFIG_INDEX_def)
  show ?thesis
    unfolding saved
    using item_ids_round_trip [OF ne ids, of example_env, unfolded saved]
    by (simp add: str_int_ids init_def py_getitem_def)
qed

text \<open>
  C2, as the code has it. The lookup is the subscript \<open>self.item_ids[index - 1]\<close> on
  the loaded list, of length \<open>n \<ge> 1\<close>. It raises \<open>IndexError\<close>, which \<open>view\<close> reports as
  "Error: list index out of range", exactly when \<open>index > n\<close> or \<open>index < 1 - n\<close>; so the
  lookup at \<open>n + 1\<close> fails. The lookup at 0 does not fail: the subscript \<open>-1\<close> is the last
  identifier of the list.
\<close>

theorem lookup_out_of_range:
  assumes "load_item_ids e w = Inr w1" and "n = int (length (item_ids w1))"
  shows "1 \<le> n \<and>
    (py_getitem (item_ids w1) (index - 1) = Inl IndexError \<longleftrightarrow> n < index \<or> index < 1 - n) \<and>
    (n < index \<or> index < 1 - n \<longrightarrow>
       view fuel e index comments_query comments w = Some (report IndexError w1) \<and>
       terminal (report IndexError w1) =
         terminal w1 @ [Secho ''Error: list index out of range'' ''red'' True]) \<and>
    py_getitem (item_ids w1) (n + 1 - 1) = Inl IndexError \<and>
    py_getitem (item_ids w1) (0 - 1) = Inr (last (item_ids w1))"
proof -
  have ne: "item_ids w1 \<noteq> []"
    by (rule load_item_ids_nonempty [OF assms(1)])
  then have n1: "1 \<le> n"
    using assms(2) by (cases "item_ids w1") auto
  have fails: "py_getitem (item_ids w1) (index - 1) = Inl IndexError \<longleftrightarrow>
      n < index \<or> index < 1 - n"
    using assms(2) by (auto simp: py_getitem_fails)
  have reported: "view fuel e index comments_query comments w = Some (report IndexError w1)"
    if "n < index \<or> index < 1 - n"
    using that fails by (simp add: view_def assms(1))
  have line: "terminal (report IndexError w1) =
      terminal w1 @ [Secho ''Error: list index out of range'' ''red'' True]"
    by (simp add: report_def secho_def)
  have above: "py_getitem (item_ids w1) (n + 1 - 1) = Inl IndexError"
    using assms(2) by (simp add: py_getitem_fails)
  have "nat (n + (0 - 1)) = length (item_ids w1) - 1"
    using assms(2) n1 by simp
  then have zero: "py_getitem (item_ids w1) (0 - 1) = Inr (last (item_ids w1))"
    using assms(2) n1 ne by (simp add: py_getitem_def Let_def last_conv_nth)
  show ?thesis
    using n1 fails reported line above zero by blast
qed

theorem lookup_out_of_range_witness:
  "load_item_ids example_env (init (Some [(''hncli'', [(''item_ids'', ''[42, 7]'')])])) =
     Inr \<lparr>item_ids = [StrId ''42'', StrId ''7''],
          config_file = Some [(''hncli'', [(''item_ids'', ''[42, 7]'')])],
          terminal = []\<rparr> \<and>
   py_getitem [StrId ''42'', StrId ''7''] (3 - 1) = Inl IndexError \<and>
   view 1 example_env 3 [] True (init (Some [(''hncli'', [(''item_ids'', ''[42, 7]'')])])) =
     Some \<lparr>item_ids = [StrId ''42'', StrId ''7''],
           config_file = Some [(''hncli'', [(''item_ids'', ''[42, 7]'')])],
           terminal = [Secho ''Error: list index out of range'' ''red'' True]\<rparr> \<and>
   py_getitem [StrId ''42'', StrId ''7''] (- 2 - 1) = Inl IndexError"
proof -
  have loaded: "load_item_ids example_env (init (Some [(''hncli'', [(''item_ids'', ''[42, 7]'')])])) =
     Inr \<lparr>item_ids = [StrId ''42'', StrId ''7''],
          config_file = Some [(''hncli'', [(''item_ids'', ''[42, 7]'')])],
          terminal = []\<rparr>"
    by (simp add: load_item_ids_def init_def parser_get_def CONFIG_SECTION_def CONFIG_INDEX_def
        py_strip_def py_isspace_def py_remove_def starts_with_def)
  have n: "(2::int) = int (length (item_ids \<lparr>item_ids = [StrId ''42'', StrId ''7''],
          config_file = Some [(''hncli'', [(''item_ids'', ''[42, 7]'')])],
          terminal = []\<rparr>))"
    by simp
  show ?thesis
    using lookup_out_of_range [OF loaded n, of 3 1 "[]" True]
      lookup_out_of_range [OF loaded n, of "- 2" 1 "[]" True]
    by (simp add: loaded report_def secho_def)
qed

theorem lookup_zero_counterexample:
  "load_item_ids example_env (init (Some [(''hncli'', [(''item_ids'', ''[42, 7]'')])])) =
     Inr \<lparr>item_ids = [StrId ''42'', StrId ''7''],
          config_file = Some [(''hncli'', [(''item_ids'', ''[42, 7]'')])],
          terminal = []\<rparr> \<and>
   py_getitem [StrId ''42'', StrId ''7''] (0 - 1) = Inr (StrId ''7'')"
  by (simp add: load_item_ids_def init_def parser_get_def CONFIG_SECTION_def CONFIG_INDEX_def
      py_strip_def py_isspace_def py_remove_def starts_with_def py_getitem_def)

lemma item_row_number:
  "hd (item_row e item index) = Secho (''  '' @ str_int index @ ''. '') ''magenta'' False"
  by (simp add: item_row_def print_formatted_item_def Let_def secho_def echo_def init_def
      split: option.split)

lemma numbered_rows_numbers:
  "list_all (\<lambda>(item, index).
      hd (item_row e item index) = Secho (''  '' @ str_int index @ ''. '') ''magenta'' False) xs"
  by (simp add: list_all_iff item_row_number split: prod.split)

lemma example_titled:
  "titled example_env [IntId 42, IntId 99, IntId 7] =
     [story 42 (Some ''Alpha'') (Some ''http://www.example.com/a''), story 7 (Some ''Beta'') None]"
  by (simp add: titled_def example_env_def example_get_item_def story_def)

lemma example_row_Alpha:
  "item_row example_env (story 42 (Some ''Alpha'') (Some ''http://www.example.com/a'')) 1 =
     [Secho ''  1. '' ''magenta'' False, Secho ''Alpha. '' ''blue'' False,
      Secho ''(example.com)'' ''magenta'' True, Secho ''     10 points '' ''green'' False,
      Secho ''by pg '' ''yellow'' False, Secho ''30 seconds ago '' ''cyan'' False,
      Secho (''| 0 comments'' @ [CHR 0x0A]) ''green'' True]"
  by (simp add: item_row_def print_formatted_item_def Let_def secho_def echo_def init_def
      story_def example_env_def example_netloc_def pretty_date_time_def td_days_def
      td_seconds_def same_day_label_def us_per_day_def us_per_second_def str_int_def
      str_nat.simps digit_char_def)

lemma example_row_Beta:
  "item_row example_env (story 7 (Some ''Beta'') None) 2 =
     [Secho ''  2. '' ''magenta'' False, Secho ''Beta. '' ''blue'' False,
      Echo [], Secho ''     10 points '' ''green'' False,
      Secho ''by pg '' ''yellow'' False, Secho ''30 seconds ago '' ''cyan'' False,
      Secho (''| 0 comments'' @ [CHR 0x0A]) ''green'' True]"
  by (simp add: item_row_def print_formatted_item_def Let_def secho_def echo_def init_def
      story_def example_env_def example_netloc_def pretty_date_time_def td_days_def
      td_seconds_def same_day_label_def us_per_day_def us_per_second_def str_int_def
      str_nat.simps digit_char_def)

lemma upto_1_2: "[1..2] = [1, 2 :: int]"
  by (simp add: upto.simps)

text \<open>
  C8. A listing started on the empty index of a fresh process returns normally. It
  writes the heading, then one row per fetched item whose title is true (neither
  \<open>None\<close> nor empty), in the order of the identifiers, the rows numbered 1, 2, ...
  without a gap, then the tip; an item without a title writes nothing and takes no
  number. The index holds the \<open>item_id\<close> of the rows' items, in order, and that list
  is what is saved. For three identifiers whose second item has no title there are
  two rows, numbered 1 and 2, and the index holds the first and the third.
\<close>

theorem print_items_skips_untitled:
  "let shown = filter (\<lambda>item. truthy (title item)) (map (get_item e) ids);
       result = print_items e message ids (init file)
   in fst result = None \<and>
      terminal (snd result) =
        [Secho ([CHR 0x0A] @ message @ [CHR 0x0A]) ''blue'' True] @
        concat (map (\<lambda>(item, index). item_row e item index) (zip shown [1..int (length shown)])) @
        [Secho TIP ''blue'' True, Echo []] \<and>
      list_all (\<lambda>(item, index).
          hd (item_row e item index) = Secho (''  '' @ str_int index @ ''. '') ''magenta'' False)
        (zip shown [1..int (length shown)]) \<and>
      item_ids (snd result) = map item_id shown \<and>
      config_file (snd result) =
        Some [(CONFIG_SECTION, [(CONFIG_INDEX, str_list (map item_id shown))])]"
  unfolding Let_def
proof (intro conjI)
  show "fst (print_items e message ids (init file)) = None"
    by (simp add: print_items_result)
  show "terminal (snd (print_items e message ids (init file))) =
        [Secho ([CHR 0x0A] @ message @ [CHR 0x0A]) ''blue'' True] @
        concat (map (\<lambda>(item, index). item_row e item index)
          (zip (filter (\<lambda>item. truthy (title item)) (map (get_item e) ids))
            [1..int (length (filter (\<lambda>item. truthy (title item)) (map (get_item e) ids)))])) @
        [Secho TIP ''blue'' True, Echo []]"
    by (simp add: print_items_result init_def numbered_rows_def titled_def)
  show "list_all (\<lambda>(item, index).
          hd (item_row e item index) = Secho (''  '' @ str_int index @ ''. '') ''magenta'' False)
        (zip (filter (\<lambda>item. truthy (title item)) (map (get_item e) ids))
          [1..int (length (filter (\<lambda>item. truthy (title item)) (map (get_item e) ids)))])"
    by (rule numbered_rows_numbers)
  show "item_ids (snd (print_items e message ids (init file))) =
      map item_id (filter (\<lambda>item. truthy (title item)) (map (get_item e) ids))"
    by (simp add: print_items_result init_def titled_def)
  show "config_file (snd (print_items e message ids (init file))) =
      Some [(CONFIG_SECTION, [(CONFIG_INDEX,
        str_list (map item_id (filter (\<lambda>item. truthy (title item)) (map (get_item e) ids))))])]"
    by (simp add: print_items_result init_def titled_def)
qed

theorem print_items_skips_untitled_witness:
  "filter (\<lambda>item. truthy (title item)) (map (get_item example_env) [IntId 42, IntId 99, IntId 7]) =
     [story 42 (Some ''Alpha'') (Some ''http://www.example.com/a''), story 7 (Some ''Beta'') None] \<and>
   fst (print_items example_env ''Top'' [IntId 42, IntId 99, IntId 7] (init None)) = None \<and>
   terminal (snd (print_items example_env ''Top'' [IntId 42, IntId 99, IntId 7] (init None))) =
     [Secho ([CHR 0x0A] @ ''Top'' @ [CHR 0x0A]) ''blue'' True,
      Secho ''  1. '' ''magenta'' False, Secho ''Alpha. '' ''blue'' False,
      Secho ''(example.com)'' ''magenta'' True, Secho ''     10 points '' ''green'' False,
      Secho ''by pg '' ''yellow'' False, Secho ''30 seconds ago '' ''cyan'' False,
      Secho (''| 0 comments'' @ [CHR 0x0A]) ''green'' True,
      Secho ''  2. '' ''magenta'' False, Secho ''Beta. '' ''blue'' False,
      Echo [], Secho ''     10 points '' ''green'' False,
      Secho ''by pg '' ''yellow'' False, Secho ''30 seconds ago '' ''cyan'' False,
      Secho (''| 0 comments'' @ [CHR 0x0A]) ''green'' True,
      Secho TIP ''blue'' True, Echo []] \<and>
   item_ids (snd (print_items example_env ''Top'' [IntId 42, IntId 99, IntId 7] (init None))) =
     [IntId 42, IntId 7]"
proof -
  have shown: "filter (\<lambda>item. truthy (title item))
      (map (get_item example_env) [IntId 42, IntId 99, IntId 7]) =
     [story 42 (Some ''Alpha'') (Some ''http://www.example.com/a''), story 7 (Some ''Beta'') None]"
    using example_titled by (simp only: titled_def)
  show ?thesis
    using print_items_skips_untitled [of example_env "[IntId 42, IntId 99, IntId 7]" "''Top''" None]
    unfolding Let_def shown
    by (simp add: upto_1_2 example_row_Alpha example_row_Beta) (simp add: story_def)
qed

lemma example_titled_one:
  "titled example_env [IntId 42] = [story 42 (Some ''Alpha'') (Some ''http://www.example.com/a'')]"
  "titled example_env [IntId 7] = [story 7 (Some ''Beta'') None]"
  by (simp_all add: titled_def example_env_def example_get_item_def story_def)

text \<open>
  C3: what the code does when two listings run on one object. Nothing clears
  \<open>item_ids\<close> at the start of \<open>print_items\<close> (only \<open>__init__\<close> sets it to the empty
  list), while the counter of the rows starts again at 1. After a listing of item 42
  and then a listing of item 7 on the same object, the second listing shows item 7 as
  row 1, but the index holds 42 and 7 and that is what is saved: in the next process
  the lookup at 1 gives \<open>'42'\<close>, an item of the earlier listing, not the item shown as
  row 1 of the last one.
\<close>

theorem second_listing_index_mismatch:
  "terminal (snd (print_items example_env ''New'' [IntId 7]
       (snd (print_items example_env ''Top'' [IntId 42] (init None))))) =
     terminal (snd (print_items example_env ''Top'' [IntId 42] (init None))) @
     [Secho ([CHR 0x0A] @ ''New'' @ [CHR 0x0A]) ''blue'' True] @
     item_row example_env (story 7 (Some ''Beta'') None) 1 @ [Secho TIP ''blue'' True, Echo []] \<and>
   hd (item_row example_env (story 7 (Some ''Beta'') None) 1) = Secho ''  1. '' ''magenta'' False \<and>
   item_id (story 7 (Some ''Beta'') None) = IntId 7 \<and>
   item_ids (snd (print_items example_env ''New'' [IntId 7]
       (snd (print_items example_env ''Top'' [IntId 42] (init None))))) = [IntId 42, IntId 7] \<and>
   config_file (snd (print_items example_env ''New'' [IntId 7]
       (snd (print_items example_env ''Top'' [IntId 42] (init None))))) =
     Some [(''hncli'', [(''item_ids'', ''[42, 7]'')])] \<and>
   load_item_ids example_env (init (Some [(''hncli'', [(''item_ids'', ''[42, 7]'')])])) =
     Inr \<lparr>item_ids = [StrId ''42'', StrId ''7''],
          config_file = Some [(''hncli'', [(''item_ids'', ''[42, 7]'')])],
          terminal = []\<rparr> \<and>
   py_getitem [StrId ''42'', StrId ''7''] (1 - 1) = Inr (StrId ''42'')"
proof (intro conjI)
  show "terminal (snd (print_items example_env ''New'' [IntId 7]
       (snd (print_items example_env ''Top'' [IntId 42] (init None))))) =
     terminal (snd (print_items example_env ''Top'' [IntId 42] (init None))) @
     [Secho ([CHR 0x0A] @ ''New'' @ [CHR 0x0A]) ''blue'' True] @
     item_row example_env (story 7 (Some ''Beta'') None) 1 @ [Secho TIP ''blue'' True, Echo []]"
    by (simp add: print_items_result example_titled_one numbered_rows_def upto.simps)
  show "hd (item_row example_env (story 7 (Some ''Beta'') None) 1) =
      Secho ''  1. '' ''magenta'' False"
    by (simp add: item_row_number str_int_small)
  show "item_id (story 7 (Some ''Beta'') None) = IntId 7"
    by (simp add: story_def)
  show "item_ids (snd (print_items example_env ''New'' [IntId 7]
       (snd (print_items example_env ''Top'' [IntId 42] (init None))))) = [IntId 42, IntId 7]"
    by (simp add: print_items_result example_titled_one init_def story_def)
  show "config_file (snd (print_items example_env ''New'' [IntId 7]
       (snd (print_items example_env ''Top'' [IntId 42] (init None))))) =
     Some [(''hncli'', [(''item_ids'', ''[42, 7]'')])]"
    by (simp add: print_items_result example_titled_one init_def story_def str_list_def
        str_int_ids CONFIG_SECTION_def CONFIG_INDEX_def)
  show "load_item_ids example_env (init (Some [(''hncli'', [(''item_ids'', ''[42, 7]'')])])) =
     Inr \<lparr>item_ids = [StrId ''42'', StrId ''7''],
          config_file = Some [(''hncli'', [(''item_ids'', ''[42, 7]'')])],
          terminal = []\<rparr>"
    by (simp add: load_item_ids_def init_def parser_get_def CONFIG_SECTION_def CONFIG_INDEX_def
        py_strip_def py_isspace_def py_remove_def starts_with_def)
  show "py_getitem [StrId ''42'', StrId ''7''] (1 - 1) = Inr (StrId ''42'')"
    by (simp add: py_getitem_def)
qed

text \<open>
  C10. A listing that renders no item saves the rendering \<open>[]\<close> of the empty list. In
  a fresh process the load of \<open>view\<close> turns that text into the list of one empty
  string, so the lookup at 1 does not raise: it gives the empty string, and \<open>view\<close>
  goes on with the item the remote source returns for it.
\<close>

theorem empty_listing_round_trip:
  assumes "\<forall>i \<in> set ids. \<not> truthy (title (get_item e i))"
  shows "let w1 = snd (print_items e message ids (init file));
             w2 = init (config_file w1)
         in item_ids w1 = [] \<and>
            config_file w1 = Some [(CONFIG_SECTION, [(CONFIG_INDEX, ''[]'')])] \<and>
            load_item_ids e' w2 = Inr (w2\<lparr>item_ids := [StrId []]\<rparr>) \<and>
            py_getitem (item_ids (w2\<lparr>item_ids := [StrId []]\<rparr>)) (1 - 1) = Inr (StrId []) \<and>
            view fuel e' 1 comments_query comments w2 =
              (case view_item fuel e' (get_item e' (StrId [])) comments_query comments
                      (w2\<lparr>item_ids := [StrId []]\<rparr>) of
                 None \<Rightarrow> None
               | Some (Some err, w3) \<Rightarrow> Some (report err w3)
               | Some (None, w3) \<Rightarrow> Some w3)"
proof -
  define w1 where "w1 = snd (print_items e message ids (init file))"
  define w2 where "w2 = init (config_file w1)"
  have none: "titled e ids = []"
    using assms by (simp add: titled_def)
  have ids: "item_ids w1 = []"
    by (simp add: w1_def print_items_result none init_def)
  have saved_file: "config_file w1 = Some [(CONFIG_SECTION, [(CONFIG_INDEX, ''[]'')])]"
    by (simp add: w1_def print_items_result none init_def str_list_def)
  have saved: "config_file w1 = config_file (save_item_ids w1)"
    by (simp add: saved_file save_item_ids_def ids str_list_def)
  have load: "load_item_ids e' w2 = Inr (w2\<lparr>item_ids := [StrId []]\<rparr>)"
    unfolding w2_def saved using load_saved [of e' w1] by (simp only: ids load_empty_list)
  have get: "py_getitem (item_ids (w2\<lparr>item_ids := [StrId []]\<rparr>)) (1 - 1) = Inr (StrId [])"
    by (simp add: py_getitem_def)
  have viewed: "view fuel e' 1 comments_query comments w2 =
      (case view_item fuel e' (get_item e' (StrId [])) comments_query comments
              (w2\<lparr>item_ids := [StrId []]\<rparr>) of
         None \<Rightarrow> None
       | Some (Some err, w3) \<Rightarrow> Some (report err w3)
       | Some (None, w3) \<Rightarrow> Some w3)"
    by (simp add: view_def load py_getitem_def)
  show ?thesis
    unfolding Let_def w1_def [symmetric] w2_def [symmetric]
    by (intro conjI ids saved_file load get viewed)
qed

theorem empty_listing_round_trip_witness:
  "\<not> truthy (title (get_item example_env (IntId 99))) \<and>
   config_file (snd (print_items example_env ''Top'' [IntId 99] (init None))) =
     Some [(''hncli'', [(''item_ids'', ''[]'')])] \<and>
   load_item_ids example_env (init (Some [(''hncli'', [(''item_ids'', ''[]'')])])) =
     Inr \<lparr>item_ids = [StrId []], config_file = Some [(''hncli'', [(''item_ids'', ''[]'')])],
          terminal = []\<rparr> \<and>
   py_getitem [StrId []] (1 - 1) = Inr (StrId [])"
proof -
  have h: "\<forall>i \<in> set [IntId 99]. \<not> truthy (title (get_item example_env i))"
    by (simp add: example_env_def example_get_item_def story_def)
  note r = empty_listing_round_trip [OF h, of "''Top''" None example_env 1 "[]" True,
      unfolded Let_def CONFIG_SECTION_def CONFIG_INDEX_def]
  note cf = r [THEN conjunct2, THEN conjunct1]
  have ld: "load_item_ids example_env (init (Some [(''hncli'', [(''item_ids'', ''[]'')])])) =
      Inr \<lparr>item_ids = [StrId []], config_file = Some [(''hncli'', [(''item_ids'', ''[]'')])],
           terminal = []\<rparr>"
    using r [THEN conjunct2, THEN conjunct2, THEN conjunct1, unfolded cf]
    by (simp add: init_def)
  have h1: "\<not> truthy (title (get_item example_env (IntId 99)))"
    using h by simp
  show ?thesis
    by (intro conjI h1 cf ld) (simp add: py_getitem_def)
qed

text \<open>
  C9: what the code shows for the host \<open>www.awwwards.com\<close>. The first match of the
  pattern is the leading \<open>www.\<close>; the second is \<open>wwwa\<close>, inside the name.
\<close>

theorem domain_display_awwwards:
  "netloc example_env ''https://www.awwwards.com/'' = ''www.awwwards.com'' \<and>
   sub_www ''www.awwwards.com'' = ''ards.com'' \<and>
   item_row example_env (get_item example_env (IntId 5)) 1 ! 2 =
     Secho ''(ards.com)'' ''magenta'' True"
  by (simp add: item_row_def print_formatted_item_def Let_def secho_def echo_def init_def
      story_def example_env_def example_get_item_def example_netloc_def)

lemma tree_A_holds: "holds_tree example_env tree_A"
  by (simp add: tree_A_def example_env_def example_get_item_def item_A_def item_B_def
      item_C_def item_D_def comment_def)

lemma tree_A_height: "height tree_A \<le> 3"
  by (simp add: tree_A_def)

lemma tree_A_preorder:
  "preorder 0 tree_A = [(item_A, 0), (item_B, 1), (item_D, 2), (item_C, 1)]"
  by (simp add: tree_A_def)

lemma example_comment_lines:
  "comment_lines example_env (comment n author body ks) depth =
     [Secho ([CHR 0x0A] @ concat (replicate (nat depth) ''    '') @ author @ '' - 30 seconds ago'')
        ''yellow'' True,
      Echo (concat (replicate (nat depth) ''    '') @
        sub_literal [CHR 0x0A, CHR 0x0A]
          ([CHR 0x0A, CHR 0x0A] @ concat (replicate (nat depth) ''    '')) body)]"
  by (simp add: comment_lines_def print_formatted_comment_def Let_def secho_def echo_def init_def
      comment_def example_env_def COMMENT_INDENT_def pretty_date_time_def td_days_def
      td_seconds_def same_day_label_def us_per_day_def us_per_second_def str_int_def
      str_nat.simps digit_char_def)

lemma example_rendered_all:
  "rendered example_env [] item_A" "rendered example_env [] item_B"
  "rendered example_env [] item_C" "rendered example_env [] item_D"
  by (simp_all add: rendered_def item_A_def item_B_def item_C_def item_D_def comment_def)

text \<open>
  C6. When the remote source holds a comment tree, \<open>print_comments\<close> on its root
  returns normally once the bound on the recursion is at least the height of the
  tree, and what it writes is the lines of the nodes it renders (those with a body
  text that pass the pattern) in pre-order: a node before its kids, the kids in the
  order of \<open>kids\<close>, each node at the depth of the root plus its distance from the
  root, the depth of a node being the same for every kid of one parent. For the tree
  \<open>A \<rightarrow> [B, C]\<close>, \<open>B \<rightarrow> [D]\<close> the order is A, B, D, C at the depths 0, 1, 2, 1.
\<close>

theorem print_comments_preorder:
  assumes "holds_tree e t" and "height t \<le> fuel"
  shows "print_comments fuel e (root t) regex_query depth w =
           Some (None, w\<lparr>terminal := terminal w @
             concat (map (\<lambda>(i, d). comment_lines e i d)
               (filter (\<lambda>(i, d). rendered e regex_query i) (preorder depth t)))\<rparr>) \<and>
         preorder 0 tree_A = [(item_A, 0), (item_B, 1), (item_D, 2), (item_C, 1)]"
  using print_comments_tree [OF assms, of regex_query depth w] tree_A_preorder
  by (simp add: tree_lines_def)

theorem print_comments_preorder_witness:
  "holds_tree example_env tree_A \<and> height tree_A \<le> 3 \<and>
   print_comments 3 example_env (root tree_A) [] 0 (init None) =
     Some (None, \<lparr>item_ids = [], config_file = None, terminal =
       [Secho ([CHR 0x0A] @ ''alice - 30 seconds ago'') ''yellow'' True,
        Echo ''first'',
        Secho ([CHR 0x0A] @ ''    bob - 30 seconds ago'') ''yellow'' True,
        Echo ''    second'',
        Secho ([CHR 0x0A] @ ''        dave - 30 seconds ago'') ''yellow'' True,
        Echo ''        fourth'',
        Secho ([CHR 0x0A] @ ''    carol - 30 seconds ago'') ''yellow'' True,
        Echo ''    third'']\<rparr>)"
proof -
  note r = print_comments_preorder [OF tree_A_holds tree_A_height, of "[]" 0 "init None",
      THEN conjunct1, unfolded tree_A_preorder]
  have "print_comments 3 example_env (root tree_A) [] 0 (init None) =
     Some (None, \<lparr>item_ids = [], config_file = None, terminal =
       [Secho ([CHR 0x0A] @ ''alice - 30 seconds ago'') ''yellow'' True,
        Echo ''first'',
        Secho ([CHR 0x0A] @ ''    bob - 30 seconds ago'') ''yellow'' True,
        Echo ''    second'',
        Secho ([CHR 0x0A] @ ''        dave - 30 seconds ago'') ''yellow'' True,
        Echo ''        fourth'',
        Secho ([CHR 0x0A] @ ''    carol - 30 seconds ago'') ''yellow'' True,
        Echo ''    third'']\<rparr>)"
    unfolding r
    by (simp add: example_rendered_all init_def)
       (simp add: item_A_def item_B_def item_C_def item_D_def example_comment_lines
         starts_with_def eval_nat_numeral)
  then show ?thesis
    using tree_A_holds tree_A_height by simp
qed

lemma rendered_empty_pattern: "rendered e [] i = (item_text i \<noteq> None)"
  by (simp add: rendered_def)

lemma example_age: "pretty_date_time (now example_env) (Datetime 0) = ''30 seconds ago''"
  by (simp add: example_env_def pretty_date_time_def td_days_def td_seconds_def
      same_day_label_def us_per_day_def us_per_second_def str_int_def str_nat.simps
      digit_char_def)

text \<open>
  C7. For an item with a body text, \<open>regex_match\<close> returns normally, and returns true
  exactly when the pattern is found in the author handle, in the raw body text or
  in the relative-age label (this holds for every pattern, the non-empty ones among
  them). With the empty pattern \<open>print_comments\<close> does not call \<open>regex_match\<close>: on a
  comment tree it writes the lines of every node that has a body text, in pre-order.
\<close>

theorem regex_match_any_of_three:
  "(item_text item = Some t \<longrightarrow>
      regex_match e item regex_query =
        Inr (re_search e regex_query (item_by item) \<or> re_search e regex_query t \<or>
             re_search e regex_query (pretty_date_time (now e) (submission_time item)))) \<and>
   (holds_tree e tr \<and> height tr \<le> fuel \<longrightarrow>
      print_comments fuel e (root tr) [] depth w =
        Some (None, w\<lparr>terminal := terminal w @
          concat (map (\<lambda>(i, d). comment_lines e i d)
            (filter (\<lambda>(i, d). item_text i \<noteq> None) (preorder depth tr)))\<rparr>))"
proof (intro conjI impI)
  assume "item_text item = Some t"
  then show "regex_match e item regex_query =
        Inr (re_search e regex_query (item_by item) \<or> re_search e regex_query t \<or>
             re_search e regex_query (pretty_date_time (now e) (submission_time item)))"
    by (auto simp: regex_match_def Let_def)
next
  assume "holds_tree e tr \<and> height tr \<le> fuel"
  then have "print_comments fuel e (root tr) [] depth w =
      Some (None, w\<lparr>terminal := terminal w @ tree_lines e [] depth tr\<rparr>)"
    by (simp add: print_comments_tree)
  then show "print_comments fuel e (root tr) [] depth w =
        Some (None, w\<lparr>terminal := terminal w @
          concat (map (\<lambda>(i, d). comment_lines e i d)
            (filter (\<lambda>(i, d). item_text i \<noteq> None) (preorder depth tr)))\<rparr>)"
    by (simp add: tree_lines_def rendered_empty_pattern)
qed

theorem regex_match_any_of_three_witness:
  "item_text item_B = Some ''second'' \<and>
   re_search example_env ''bob'' (item_by item_B) \<and>
   \<not> re_search example_env ''bob'' ''second'' \<and>
   \<not> re_search example_env ''bob'' (pretty_date_time (now example_env) (submission_time item_B)) \<and>
   regex_match example_env item_B ''bob'' = Inr True \<and>
   regex_match example_env item_B ''zzz'' = Inr False \<and>
   holds_tree example_env (Node item_B [Node item_D []]) \<and>
   height (Node item_B [Node item_D []]) \<le> 2 \<and>
   print_comments 2 example_env item_B [] 0 (init None) =
     Some (None, \<lparr>item_ids = [], config_file = None, terminal =
       [Secho ([CHR 0x0A] @ ''bob - 30 seconds ago'') ''yellow'' True,
        Echo ''second'',
        Secho ([CHR 0x0A] @ ''    dave - 30 seconds ago'') ''yellow'' True,
        Echo ''    fourth'']\<rparr>)"
proof -
  have body: "item_text item_B = Some ''second''"
    by (simp add: item_B_def comment_def)
  have holds: "holds_tree example_env (Node item_B [Node item_D []]) \<and>
      height (Node item_B [Node item_D []]) \<le> 2"
    by (simp add: example_env_def example_get_item_def item_B_def item_D_def comment_def)
  have texts: "item_text item_B \<noteq> None" "item_text item_D \<noteq> None"
    by (simp_all add: item_B_def item_D_def comment_def)
  have searches: "re_search example_env ''bob'' (item_by item_B)"
    "\<not> re_search example_env ''bob'' ''second''"
    "\<not> re_search example_env ''bob''
        (pretty_date_time (now example_env) (submission_time item_B))"
    "\<not> re_search example_env ''zzz'' (item_by item_B)"
    "\<not> re_search example_env ''zzz'' ''second''"
    "\<not> re_search example_env ''zzz''
        (pretty_date_time (now example_env) (submission_time item_B))"
    by (simp_all add: item_B_def comment_def example_age) (simp_all add: example_env_def)
  have bob: "regex_match example_env item_B ''bob'' = Inr True"
    using regex_match_any_of_three [THEN conjunct1, rule_format, OF body,
        where e = example_env and regex_query = "''bob''"]
      searches by simp
  have zzz: "regex_match example_env item_B ''zzz'' = Inr False"
    using regex_match_any_of_three [THEN conjunct1, rule_format, OF body,
        where e = example_env and regex_query = "''zzz''"]
      searches by simp
  have "print_comments 2 example_env (root (Node item_B [Node item_D []])) [] 0 (init None) =
     Some (None, \<lparr>item_ids = [], config_file = None, terminal =
       [Secho ([CHR 0x0A] @ ''bob - 30 seconds ago'') ''yellow'' True,
        Echo ''second'',
        Secho ([CHR 0x0A] @ ''    dave - 30 seconds ago'') ''yellow'' True,
        Echo ''    fourth'']\<rparr>)"
    unfolding regex_match_any_of_three [THEN conjunct2, rule_format, OF holds,
        where depth = 0 and w = "init None"]
    by (simp add: init_def texts)
       (simp add: item_B_def item_D_def example_comment_lines starts_with_def eval_nat_numeral)
  then show ?thesis
    using body holds searches(1-3) bob zzz by simp
qed

end
